theory Spec2Isabelle
  imports Main
begin

section \<open>Python strings\<close>

text \<open>
  A Python \<open>str\<close> is a sequence of Unicode code points and \<open>len\<close> counts code points.
  The program compares against glyphs outside Latin-1 (prompt glyphs, emoji in labels), so a
  string is modelled as the list of its code points. ASCII literals are written with \<open>lit\<close>.
\<close>

type_synonym ustr = "int list"

definition lit :: "string \<Rightarrow> ustr" where
  "lit s = map of_char s"

definition ch :: "char \<Rightarrow> int" where
  "ch c = of_char c"

text \<open>
  \<open>str.lower\<close>: the ASCII letters \<open>A\<close>..\<open>Z\<close> are mapped to \<open>a\<close>..\<open>z\<close>. Of the cased
  letters beyond ASCII, two have a lower case that holds an ASCII letter: the Kelvin sign
  U+212A gives \<open>k\<close>, and U+0130 gives \<open>i\<close> followed by U+0307; both are mapped so. The other
  cased letters beyond ASCII, whose lower case is again beyond ASCII, are left unchanged:
  the program compares lowered strings with ASCII text and with two prompt glyphs only.
\<close>

definition lower_cp :: "int \<Rightarrow> ustr" where
  "lower_cp c =
     (if 65 \<le> c \<and> c \<le> 90 then [c + 32]
      else if c = 0x212A then [0x6B]
      else if c = 0x0130 then [0x69, 0x0307]
      else [c])"

definition lower :: "ustr \<Rightarrow> ustr" where
  "lower s = concat (map lower_cp s)"

text \<open>\<open>s.startswith(p)\<close> and \<open>sub in s\<close>.\<close>

fun startswith :: "ustr \<Rightarrow> ustr \<Rightarrow> bool" where
  "startswith s [] = True"
| "startswith [] (p # ps) = False"
| "startswith (c # cs) (p # ps) = (c = p \<and> startswith cs ps)"

fun contains :: "ustr \<Rightarrow> ustr \<Rightarrow> bool" where
  "contains [] sub = (sub = [])"
| "contains (c # cs) sub = (startswith (c # cs) sub \<or> contains cs sub)"

text \<open>\<open>s.split(sep)\<close> for a one-character separator: the result is never empty.\<close>

fun split_on :: "int \<Rightarrow> ustr \<Rightarrow> ustr list" where
  "split_on sep [] = [[]]"
| "split_on sep (c # cs) =
     (if c = sep then [] # split_on sep cs
      else (case split_on sep cs of
              [] \<Rightarrow> [[c]]
            | w # ws \<Rightarrow> (c # w) # ws))"

text \<open>\<open>sep.join(parts)\<close>.\<close>

fun join :: "ustr \<Rightarrow> ustr list \<Rightarrow> ustr" where
  "join sep [] = []"
| "join sep [x] = x"
| "join sep (x # y # ys) = x @ sep @ join sep (y # ys)"

text \<open>\<open>s.split("/")[-1]\<close>: the index \<open>-1\<close> is always in range, since \<open>split\<close> is never empty.\<close>

definition base_name :: "ustr \<Rightarrow> ustr" where
  "base_name s = last (split_on (ch CHR ''/'') s)"

section \<open>Process classifier\<close>

text \<open>The labels returned by \<open>_categorize_process\<close>: an emoji, a space and a word.\<close>

definition label_shell :: ustr where "label_shell = [0x1F41A, 0x20] @ lit ''shell''"
definition label_editor :: ustr where "label_editor = [0x1F4DD, 0x20] @ lit ''editor''"
definition label_build :: ustr where "label_build = [0x1F528, 0x20] @ lit ''build''"
definition label_test :: ustr where "label_test = [0x1F9EA, 0x20] @ lit ''test''"
definition label_server :: ustr where "label_server = [0x1F310, 0x20] @ lit ''server''"
definition label_ssh :: ustr where "label_ssh = [0x1F517, 0x20] @ lit ''ssh''"
definition label_agent :: ustr where "label_agent = [0x1F916, 0x20] @ lit ''agent''"
definition label_git :: ustr where "label_git = [0x1F4E6, 0x20] @ lit ''git''"
definition label_container :: ustr where "label_container = [0x1F433, 0x20] @ lit ''container''"
definition label_viewer :: ustr where "label_viewer = [0x1F441, 0x20] @ lit ''viewer''"
definition label_flutter :: ustr where "label_flutter = [0x1F4F1, 0x20] @ lit ''flutter''"
definition label_script :: ustr where "label_script = [0x26A1, 0x20] @ lit ''script''"
definition label_process :: ustr where "label_process = [0x1F4BB, 0x20] @ lit ''process''"

definition shells :: "ustr list" where
  "shells = map lit [''zsh'', ''bash'', ''sh'', ''fish'', ''tcsh'', ''ksh'', ''-zsh'', ''-bash'']"

definition editors :: "ustr list" where
  "editors = map lit [''vim'', ''nvim'', ''vi'', ''nano'', ''emacs'', ''code'', ''subl'',
     ''micro'', ''helix'']"

definition build_tools :: "ustr list" where
  "build_tools = map lit [''make'', ''cmake'', ''cargo'', ''go'', ''gcc'', ''clang'', ''rustc'',
     ''npm'', ''yarn'', ''pnpm'', ''gradle'', ''mvn'']"

definition test_runners :: "ustr list" where
  "test_runners = map lit [''pytest'', ''jest'', ''mocha'', ''rspec'', ''go'']"

definition servers :: "ustr list" where
  "servers = map lit [''node'', ''python'', ''ruby'', ''java'', ''uvicorn'', ''gunicorn'',
     ''nginx'', ''postgres'', ''redis'']"

definition agents :: "ustr list" where
  "agents = map lit [''codex'', ''claude'', ''aider'', ''copilot'']"

definition containers :: "ustr list" where
  "containers = map lit [''docker'', ''podman'', ''kubectl'', ''k9s'']"

definition viewers :: "ustr list" where
  "viewers = map lit [''less'', ''more'', ''cat'', ''bat'', ''ranger'', ''mc'', ''htop'',
     ''top'', ''btop'']"

definition script_langs :: "ustr list" where
  "script_langs = map lit [''python'', ''python3'', ''node'', ''ruby'', ''perl'']"

text \<open>
  The chain of \<open>if\<close>s of \<open>_categorize_process\<close> after \<open>base\<close> and \<open>full_cmd\<close> are computed,
  in the source's order; the first test that holds returns.
\<close>

definition categorize_base :: "ustr \<Rightarrow> ustr \<Rightarrow> ustr" where
  "categorize_base base full_cmd =
     (if base \<in> set shells then label_shell
      else if base \<in> set editors then label_editor
      else if base \<in> set build_tools then label_build
      else if base \<in> set test_runners \<or> contains full_cmd (lit ''test'') then label_test
      else if base \<in> set servers \<and>
              (contains full_cmd (lit ''server'') \<or> contains full_cmd (lit ''serve'')
               \<or> contains full_cmd (lit ''run'')) then label_server
      else if base = lit ''ssh'' \<or> contains full_cmd (lit ''ssh '') then label_ssh
      else if base \<in> set agents \<or> contains full_cmd (lit ''codex'')
              \<or> contains full_cmd (lit ''claude'') then label_agent
      else if base = lit ''git'' then label_git
      else if base \<in> set containers then label_container
      else if base \<in> set viewers then label_viewer
      else if base = lit ''flutter'' \<or> contains full_cmd (lit ''flutter'') then label_flutter
      else if base \<in> set script_langs then label_script
      else label_process)"

fun categorize_process :: "ustr list \<Rightarrow> ustr" where
  "categorize_process [] = lit ''unknown''"
| "categorize_process (c # cs) =
     (let cmd = lower c;
          full_cmd = lower (join (lit '' '') (c # cs));
          base = base_name cmd
      in categorize_base base full_cmd)"

section \<open>SSH target extraction\<close>

text \<open>The options of \<open>ssh\<close> that take an argument, as \<open>_extract_ssh_target\<close> lists them.\<close>

definition value_flags :: "ustr list" where
  "value_flags = map lit [''-i'', ''-p'', ''-l'', ''-o'', ''-F'', ''-J'', ''-W'', ''-L'', ''-R'',
     ''-D'']"

text \<open>
  The \<open>for\<close> loop of \<open>_extract_ssh_target\<close>; the first argument is the variable
  \<open>skip_next\<close>. Falling off the end of the loop returns \<open>None\<close>.
\<close>

fun ssh_loop :: "bool \<Rightarrow> ustr list \<Rightarrow> ustr option" where
  "ssh_loop skip_next [] = None"
| "ssh_loop skip_next (arg # args) =
     (if skip_next then ssh_loop False args
      else if arg \<in> set value_flags then ssh_loop True args
      else if startswith arg (lit ''-'') then ssh_loop False args
      else if base_name arg = lit ''ssh'' then ssh_loop False args
      else Some arg)"

fun extract_ssh_target :: "ustr list \<Rightarrow> ustr option" where
  "extract_ssh_target [] = None"
| "extract_ssh_target (c # cs) =
     (let full_cmd = join (lit '' '') (c # cs) in
      if \<not> contains (lower full_cmd) (lit ''ssh '') \<and> base_name c \<noteq> lit ''ssh'' then None
      else ssh_loop False (c # cs))"



section \<open>Truncation and whitespace\<close>

text \<open>
  The code points that \<open>str.strip()\<close> removes from both ends (those for which
  \<open>str.isspace\<close> holds).
\<close>

definition is_space :: "int \<Rightarrow> bool" where
  "is_space c \<longleftrightarrow>
     (0x09 \<le> c \<and> c \<le> 0x0D) \<or> (0x1C \<le> c \<and> c \<le> 0x20) \<or> c = 0x85 \<or> c = 0xA0
     \<or> c = 0x1680 \<or> (0x2000 \<le> c \<and> c \<le> 0x200A) \<or> c = 0x2028 \<or> c = 0x2029
     \<or> c = 0x202F \<or> c = 0x205F \<or> c = 0x3000"

definition strip :: "ustr \<Rightarrow> ustr" where
  "strip s = rev (dropWhile is_space (rev (dropWhile is_space s)))"

text \<open>The slice \<open>xs[:k]\<close>; a negative \<open>k\<close> counts from the end.\<close>

definition slice_to :: "int \<Rightarrow> 'a list \<Rightarrow> 'a list" where
  "slice_to k xs = (if 0 \<le> k then take (nat k) xs else take (length xs - nat (- k)) xs)"

text \<open>The slice \<open>xs[-k:]\<close> as Python evaluates it, for any integer \<open>k\<close> (\<open>xs[-0:]\<close> is \<open>xs\<close>).\<close>

definition slice_last :: "int \<Rightarrow> 'a list \<Rightarrow> 'a list" where
  "slice_last k xs = (if 0 < k then drop (length xs - nat k) xs else drop (nat (- k)) xs)"

text \<open>\<open>truncate(text, max_len)\<close>: newlines become spaces, carriage returns go, then strip.\<close>

definition truncate_str :: "ustr \<Rightarrow> int \<Rightarrow> ustr" where
  "truncate_str text max_len =
     (if text = [] then []
      else
        let text1 = strip (filter (\<lambda>c. c \<noteq> 0x0D) (map (\<lambda>c. if c = 0x0A then 0x20 else c) text))
        in if int (length text1) > max_len then slice_to (max_len - 3) text1 @ lit ''...''
           else text1)"

section \<open>Error scanner\<close>

text \<open>
  The regular expressions of \<open>error_patterns\<close> use literal characters, \<open>^\<close>, \<open>\b\<close>,
  \<open>\d\<close>, \<open>.*\<close> and one optional character (\<open>s?\<close>). A pattern is the sequence of its
  items; \<open>\d{2}\<close> is written as two \<open>Digit\<close>s.
\<close>

datatype rx_item = Chr int | Bol | Wordb | Digit | AnyStar | Opt int

type_synonym rx = "rx_item list"

definition chars :: "string \<Rightarrow> rx" where
  "chars s = map (\<lambda>c. Chr (of_char c)) s"

text \<open>
  The digits \<open>0\<close>..\<open>9\<close>, for the class \<open>[0-9]\<close> and for \<open>\d\<close>. Python's \<open>\d\<close> also
  matches the decimal digits of other scripts; those code points are not digits here.
\<close>

definition is_digit :: "int \<Rightarrow> bool" where
  "is_digit c \<longleftrightarrow> 0x30 \<le> c \<and> c \<le> 0x39"

text \<open>
  \<open>\w\<close>: letters, digits and the underscore. Python also counts the alphanumerics beyond
  ASCII; those code points are not word characters here.
\<close>

definition is_word :: "int \<Rightarrow> bool" where
  "is_word c \<longleftrightarrow> is_digit c \<or> (0x41 \<le> c \<and> c \<le> 0x5A) \<or> (0x61 \<le> c \<and> c \<le> 0x7A) \<or> c = 0x5F"

definition word_before :: "int option \<Rightarrow> bool" where
  "word_before prev = (case prev of None \<Rightarrow> False | Some c \<Rightarrow> is_word c)"

definition word_after :: "ustr \<Rightarrow> bool" where
  "word_after s = (case s of [] \<Rightarrow> False | c # _ \<Rightarrow> is_word c)"

text \<open>
  \<open>rx_match p prev s\<close>: the pattern \<open>p\<close> matches a prefix of \<open>s\<close>, where \<open>prev\<close> is the
  character before \<open>s\<close> in the searched string (\<open>None\<close> at its start). \<open>^\<close> holds only at
  the start of the string, \<open>.\<close> matches anything but a newline.
\<close>

fun rx_match :: "rx \<Rightarrow> int option \<Rightarrow> ustr \<Rightarrow> bool" where
  "rx_match [] prev s = True"
| "rx_match (Chr c # p) prev [] = False"
| "rx_match (Chr c # p) prev (x # xs) = (x = c \<and> rx_match p (Some x) xs)"
| "rx_match (Bol # p) prev s = (prev = None \<and> rx_match p prev s)"
| "rx_match (Wordb # p) prev s = (word_before prev \<noteq> word_after s \<and> rx_match p prev s)"
| "rx_match (Digit # p) prev [] = False"
| "rx_match (Digit # p) prev (x # xs) = (is_digit x \<and> rx_match p (Some x) xs)"
| "rx_match (AnyStar # p) prev [] = rx_match p prev []"
| "rx_match (AnyStar # p) prev (x # xs) =
     (rx_match p prev (x # xs) \<or> (x \<noteq> 0x0A \<and> rx_match (AnyStar # p) (Some x) xs))"
| "rx_match (Opt c # p) prev [] = rx_match p prev []"
| "rx_match (Opt c # p) prev (x # xs) =
     ((x = c \<and> rx_match p (Some x) xs) \<or> rx_match p prev (x # xs))"

text \<open>\<open>re.search(p, s)\<close> as a truth value: a match starting at some position of \<open>s\<close>.\<close>

fun rx_search_from :: "rx \<Rightarrow> int option \<Rightarrow> ustr \<Rightarrow> bool" where
  "rx_search_from p prev [] = rx_match p prev []"
| "rx_search_from p prev (x # xs) = (rx_match p prev (x # xs) \<or> rx_search_from p (Some x) xs)"

definition re_search :: "rx \<Rightarrow> ustr \<Rightarrow> bool" where
  "re_search p s = rx_search_from p None s"

text \<open>The list \<open>error_patterns\<close>, in the source's order.\<close>

definition error_patterns :: "(rx \<times> ustr) list" where
  "error_patterns =
    [(Bol # chars ''error:'', lit ''Error''),
     (Bol # chars ''error['', lit ''Compiler error''),
     (Wordb # chars ''error'' @ [Wordb, AnyStar, Chr (ch CHR '':'')], lit ''Error''),
     (Wordb # chars ''error ['', lit ''Error''),
     ([Bol, Digit, Digit, Chr (ch CHR '':''), Digit, Digit, Chr (ch CHR '':''), Digit, Digit]
        @ chars '' error'', lit ''Error''),
     (Bol # chars ''exception:'', lit ''Exception''),
     (chars ''exception:'', lit ''Exception''),
     (Bol # chars ''traceback'', lit ''Python traceback''),
     (Bol # chars ''fatal:'', lit ''Fatal error''),
     (Bol # chars ''panic:'', lit ''Panic/crash''),
     (chars ''segmentation fault'', lit ''Segmentation fault''),
     (Bol # chars ''permission denied'', lit ''Permission denied''),
     (chars ''command not found'', lit ''Command not found''),
     (Bol # chars ''syntaxerror:'', lit ''Syntax error''),
     (chars ''compilation failed'', lit ''Compilation failed''),
     (chars ''build failed'', lit ''Build failed''),
     (chars ''test'' @ [Opt (ch CHR ''s'')] @ chars '' failed'', lit ''Test failed''),
     (Bol # chars ''failed:'', lit ''Failed''),
     (chars ''npm err!'', lit ''NPM error''),
     (chars ''unhandled'' @ [AnyStar] @ chars ''exception'', lit ''Unhandled exception''),
     (chars ''unhandled'' @ [AnyStar] @ chars ''rejection'', lit ''Unhandled rejection''),
     (chars ''stack trace:'', lit ''Stack trace''),
     (Bol # chars ''[error]'', lit ''Error''),
     (chars ''error:'' @ [AnyStar] @ chars ''failed'', lit ''Error'')]"

text \<open>
  \<open>re.sub(r'\x1b\[[0-9;]*m', '', s)\<close>. \<open>sgr_match s\<close> is what follows a match at the start of
  \<open>s\<close>: after \<open>ESC [\<close> the class \<open>[0-9;]*\<close> takes all it can, and as \<open>m\<close> is not in the
  class, the match succeeds exactly when an \<open>m\<close> comes next. \<open>strip_sgr\<close> removes the
  matches from left to right, without looking at its own output again.
\<close>

definition sgr_match :: "ustr \<Rightarrow> ustr option" where
  "sgr_match s =
     (if startswith s [0x1B, 0x5B] then
        (case dropWhile (\<lambda>c. is_digit c \<or> c = 0x3B) (drop 2 s) of
           [] \<Rightarrow> None
         | m # rest \<Rightarrow> if m = 0x6D then Some rest else None)
      else None)"

function strip_sgr :: "ustr \<Rightarrow> ustr" where
  "strip_sgr [] = []"
| "strip_sgr (c # cs) =
     (case sgr_match (c # cs) of
        Some rest \<Rightarrow> strip_sgr rest
      | None \<Rightarrow> c # strip_sgr cs)"
  by pat_completeness auto
termination
proof (relation "measure length")
  fix c cs rest
  assume a: "sgr_match (c # cs) = Some rest"
  let ?r = "dropWhile (\<lambda>c. is_digit c \<or> c = 0x3B) (drop 2 (c # cs))"
  from a obtain m where "?r = m # rest"
    unfolding sgr_match_def by (auto split: if_splits list.splits)
  then have "length rest < length ?r"
    by simp
  also have "\<dots> \<le> length (drop 2 (c # cs))"
    by (rule length_dropWhile_le)
  also have "\<dots> \<le> length (c # cs)"
    by simp
  finally show "(rest, c # cs) \<in> measure length"
    by simp
qed simp_all

text \<open>The lines that the scan skips: empty ones, prompts, and status lines.\<close>

definition prompt_glyphs :: "ustr list" where
  "prompt_glyphs = [[0x276F], [0x203A], lit ''$'', lit ''%'', lit ''>'']"

definition status_words :: "ustr list" where
  "status_words = map lit [''info'', ''warn'', ''debug'', ''notice'']"

definition startswith_any :: "ustr \<Rightarrow> ustr list \<Rightarrow> bool" where
  "startswith_any s ps = list_ex (startswith s) ps"

text \<open>The entry appended to \<open>errors\<close> for a line and the description of its pattern.\<close>

definition error_entry :: "ustr \<Rightarrow> ustr \<Rightarrow> ustr" where
  "error_entry description line =
     (let clean_line = strip_sgr (strip line)
      in description @ lit '': `'' @ truncate_str clean_line 60 @ lit ''`'')"

text \<open>
  The inner \<open>for\<close> loop: the first pattern of the list that is not in \<open>seen_patterns\<close> and
  matches the line.
\<close>

fun first_match :: "(rx \<times> ustr) list \<Rightarrow> rx set \<Rightarrow> ustr \<Rightarrow> (rx \<times> ustr) option" where
  "first_match [] seen line_lower = None"
| "first_match ((pattern, description) # ps) seen line_lower =
     (if pattern \<in> seen then first_match ps seen line_lower
      else if re_search pattern line_lower then Some (pattern, description)
      else first_match ps seen line_lower)"

text \<open>
  The outer loop over \<open>recent_lines\<close>; the state is the pair of \<open>errors\<close> and
  \<open>seen_patterns\<close>. The loop ends early once three entries are collected.
\<close>

fun scan_lines :: "ustr list \<Rightarrow> ustr list \<times> rx set \<Rightarrow> ustr list \<times> rx set" where
  "scan_lines [] st = st"
| "scan_lines (line # rest) (errors, seen_patterns) =
     (let line_lower = strip (lower line) in
      if line_lower = [] \<or> startswith_any line_lower prompt_glyphs
        then scan_lines rest (errors, seen_patterns)
      else if startswith_any line_lower status_words
        then scan_lines rest (errors, seen_patterns)
      else
        let st' = (case first_match error_patterns seen_patterns line_lower of
                     None \<Rightarrow> (errors, seen_patterns)
                   | Some (pattern, description) \<Rightarrow>
                       (errors @ [error_entry description line], insert pattern seen_patterns))
        in if length (fst st') \<ge> 3 then st' else scan_lines rest st')"

definition detect_state :: "ustr \<Rightarrow> ustr list \<times> rx set" where
  "detect_state text =
     (let lines = split_on 0x0A text;
          recent_lines = slice_last 30 lines
      in scan_lines recent_lines ([], {}))"

definition detect_errors :: "ustr \<Rightarrow> ustr list" where
  "detect_errors text = (if text = [] then [] else fst (detect_state text))"

section \<open>Numbers in format strings\<close>

text \<open>
  \<open>str(i)\<close> for an integer, as an f-string renders it; \<open>str_digits\<close> gives the decimal
  digits of a number that is not negative.
\<close>

function str_digits :: "int \<Rightarrow> ustr" where
  "str_digits n = (if n < 10 then [0x30 + n] else str_digits (n div 10) @ [0x30 + n mod 10])"
  by pat_completeness auto
termination
  by (relation "measure nat") auto

declare str_digits.simps [simp del]

definition str_int :: "int \<Rightarrow> ustr" where
  "str_int i = (if i < 0 then lit ''-'' @ str_digits (- i) else str_digits i)"

text \<open>
  A numeric field read with a default of \<open>"?"\<close>, as in \<open>win.get("id", "?")\<close>: the number,
  or the string \<open>?\<close> when the key is absent.
\<close>

datatype jnum = Num int | Absent

fun show_jnum :: "jnum \<Rightarrow> ustr" where
  "show_jnum (Num n) = str_int n"
| "show_jnum Absent = lit ''?''"

text \<open>Python truth of such a value: the string \<open>?\<close> is true, a number is true unless zero.\<close>

fun truthy_jnum :: "jnum \<Rightarrow> bool" where
  "truthy_jnum (Num n) = (n \<noteq> 0)"
| "truthy_jnum Absent = True"

text \<open>Python truth of an optional string: \<open>None\<close> and the empty string are false.\<close>

fun truthy :: "ustr option \<Rightarrow> bool" where
  "truthy None = False"
| "truthy (Some s) = (s \<noteq> [])"

section \<open>Session tree\<close>

text \<open>
  The JSON that \<open>kitten @ ls\<close> prints, restricted to the keys that \<open>summary\<close> uses. A key
  read with \<open>.get(key, default)\<close> is an option, or a \<open>jnum\<close> when the default is \<open>"?"\<close>;
  flags read with the default \<open>False\<close> are booleans.
\<close>

record process_info =
  pi_cmdline :: "ustr list option"
  pi_cwd :: "ustr option"
  pi_pid :: "jnum option"

record window =
  win_id :: jnum
  win_is_self :: bool
  win_cwd :: "ustr option"
  win_pid :: jnum
  win_is_focused :: bool
  win_is_active :: bool
  win_at_prompt :: bool
  win_columns :: jnum
  win_lines :: jnum
  win_created_at :: "int option"
  win_env :: "ustr \<rightharpoonup> ustr"
  win_foreground_processes :: "process_info list"

record tab =
  tab_id :: jnum
  tab_title :: "ustr option"
  tab_windows :: "window list"

record os_window =
  os_tabs :: "tab list"

section \<open>External collaborators\<close>

text \<open>
  What the program asks of its surroundings: the \<open>kitten @\<close> subprocess, the JSON decoder,
  the \<open>git\<close> subprocess and the clock. \<open>subprocess_kitten\<close> gets the arguments after
  \<open>kitten @\<close>. \<open>fromtimestamp\<close> stands for
  \<open>datetime.fromtimestamp(created_at_ns / 1_000_000_000)\<close>, and \<open>now_micros\<close> for
  \<open>datetime.now()\<close>, both in microseconds on the local time line; \<open>None\<close> is a raised
  exception. \<open>subprocess_git\<close> is \<open>None\<close> when the call raises (time-out included).
\<close>

datatype proc_result = Completed int ustr ustr | TimeoutExpired | FileNotFoundError

record world =
  to_address :: "ustr option"
  subprocess_kitten :: "ustr list \<Rightarrow> proc_result"
  json_loads :: "ustr \<Rightarrow> os_window list option"
  subprocess_git :: "ustr \<Rightarrow> (int \<times> ustr) option"
  now_micros :: int
  fromtimestamp :: "int \<Rightarrow> int option"
  now_strftime :: ustr

definition run_kitten :: "world \<Rightarrow> ustr list \<Rightarrow> int \<times> ustr \<times> ustr" where
  "run_kitten w args =
     (case subprocess_kitten w args of
        Completed returncode out err \<Rightarrow> (returncode, out, err)
      | TimeoutExpired \<Rightarrow> (1, [], lit ''Command timed out'')
      | FileNotFoundError \<Rightarrow> (1, [], lit ''kitten command not found. Is Kitty installed?''))"

definition base_args :: "world \<Rightarrow> ustr list" where
  "base_args w = (if truthy (to_address w) then [lit ''--to'', the (to_address w)] else [])"

definition run :: "world \<Rightarrow> ustr list \<Rightarrow> int \<times> ustr \<times> ustr" where
  "run w args = run_kitten w (base_args w @ args)"

text \<open>\<open>ls\<close> returns the decoded tree, or a dictionary with the key \<open>error\<close>.\<close>

datatype ls_result = LsError ustr "ustr option" | LsData "os_window list"

definition ls_args :: "ustr option \<Rightarrow> ustr option \<Rightarrow> ustr list" where
  "ls_args match match_tab =
     [lit ''ls'']
     @ (if truthy match then [lit ''--match'', the match] else [])
     @ (if truthy match_tab then [lit ''--match-tab'', the match_tab] else [])"

definition ls :: "world \<Rightarrow> ustr option \<Rightarrow> ustr option \<Rightarrow> ls_result" where
  "ls w match match_tab =
     (case run w (ls_args match match_tab) of
        (rc, out, err) \<Rightarrow>
          if rc \<noteq> 0 then LsError (if err \<noteq> [] then err else lit ''Failed to list windows'') None
          else (case json_loads w out of
                  Some data \<Rightarrow> LsData data
                | None \<Rightarrow> LsError (lit ''Invalid JSON response'') (Some out)))"

definition get_text_args :: "ustr option \<Rightarrow> ustr \<Rightarrow> bool \<Rightarrow> jnum option \<Rightarrow> ustr list" where
  "get_text_args match extent ansi window_id =
     [lit ''get-text'']
     @ (if window_id \<noteq> None \<and> truthy_jnum (the window_id)
          then [lit ''--match'', lit ''id:'' @ show_jnum (the window_id)]
        else if truthy match then [lit ''--match'', the match]
        else [])
     @ [lit ''--extent'', extent]
     @ (if ansi then [lit ''--ansi''] else [])"

definition get_text :: "world \<Rightarrow> ustr option \<Rightarrow> ustr \<Rightarrow> bool \<Rightarrow> jnum option \<Rightarrow> ustr" where
  "get_text w match extent ansi window_id =
     (case run w (get_text_args match extent ansi window_id) of
        (rc, out, err) \<Rightarrow> if rc \<noteq> 0 then lit ''Error: '' @ err else out)"

section \<open>Context extractors\<close>

definition get_git_branch :: "world \<Rightarrow> ustr \<Rightarrow> ustr option" where
  "get_git_branch w cwd =
     (case subprocess_git w cwd of
        None \<Rightarrow> None
      | Some (returncode, out) \<Rightarrow>
          if returncode = 0 then
            (let branch = strip out in if branch \<noteq> [] then Some branch else None)
          else None)"

definition env_get :: "(ustr \<rightharpoonup> ustr) \<Rightarrow> ustr \<Rightarrow> ustr \<Rightarrow> ustr" where
  "env_get env key dflt = (case env key of None \<Rightarrow> dflt | Some v \<Rightarrow> v)"

definition get_virtualenv :: "(ustr \<rightharpoonup> ustr) \<Rightarrow> ustr option" where
  "get_virtualenv env =
     (let venv = env_get env (lit ''VIRTUAL_ENV'') [] in
      if venv \<noteq> [] then Some (base_name venv)
      else
        let conda = env_get env (lit ''CONDA_DEFAULT_ENV'') [] in
        if conda \<noteq> [] \<and> conda \<noteq> lit ''base'' then Some (lit ''conda:'' @ conda)
        else None)"

section \<open>Age formatter\<close>

text \<open>
  The result of \<open>_format_age\<close> is \<open>unknown\<close> or a count with a unit; \<open>show_age\<close> is the
  string that is returned, \<open>age_interval\<close> the interval in seconds that it denotes.
\<close>

datatype age = Unknown | DaysAgo int | HoursAgo int | MinutesAgo int | SecondsAgo int

fun show_age :: "age \<Rightarrow> ustr" where
  "show_age Unknown = lit ''unknown''"
| "show_age (DaysAgo n) = str_int n @ lit ''d ago''"
| "show_age (HoursAgo n) = str_int n @ lit ''h ago''"
| "show_age (MinutesAgo n) = str_int n @ lit ''m ago''"
| "show_age (SecondsAgo n) = str_int n @ lit ''s ago''"


text \<open>
  The fields \<open>days\<close> and \<open>seconds\<close> of a \<open>timedelta\<close> of \<open>delta\<close> microseconds, in its
  normal form: \<open>0 \<le> seconds < 86400\<close>, and \<open>days\<close> is negative for a negative \<open>delta\<close>.
\<close>

definition delta_days :: "int \<Rightarrow> int" where
  "delta_days delta = delta div 86400000000"

definition delta_seconds :: "int \<Rightarrow> int" where
  "delta_seconds delta = (delta mod 86400000000) div 1000000"

definition age_of_delta :: "int \<Rightarrow> age" where
  "age_of_delta delta =
     (if delta_days delta > 0 then DaysAgo (delta_days delta)
      else if delta_seconds delta \<ge> 3600 then HoursAgo (delta_seconds delta div 3600)
      else if delta_seconds delta \<ge> 60 then MinutesAgo (delta_seconds delta div 60)
      else SecondsAgo (delta_seconds delta))"

definition format_age_value :: "world \<Rightarrow> int \<Rightarrow> age" where
  "format_age_value w created_at_ns =
     (if created_at_ns = 0 then Unknown
      else (case fromtimestamp w created_at_ns of
              None \<Rightarrow> Unknown
            | Some created \<Rightarrow> age_of_delta (now_micros w - created)))"

definition format_age :: "world \<Rightarrow> int \<Rightarrow> ustr" where
  "format_age w created_at_ns = show_age (format_age_value w created_at_ns)"


section \<open>Report synthesizer\<close>

text \<open>
  The variables that \<open>summary\<close> updates while it walks the tree. The identifiers collected
  in \<open>error_windows\<close> and \<open>ready_windows\<close> are the values of \<open>win.get("id", "?")\<close>.
\<close>

record summary_state =
  output_parts :: "ustr list"
  window_count :: int
  error_windows :: "jnum list"
  ready_windows :: "jnum list"

definition summary_header :: "world \<Rightarrow> int \<Rightarrow> ustr \<Rightarrow> ustr list" where
  "summary_header w lines extent =
     [lit ''# Kitty Terminal Summary\<newline>'',
      lit ''*Generated: '' @ now_strftime w @ lit ''*\<newline>'',
      lit ''*Showing last '' @ str_int lines @ lit '' lines from each window (extent: '' @ extent
        @ lit '')*\<newline>'',
      lit ''---\<newline>'']"

definition status_focused :: ustr where "status_focused = [0x1F7E2, 0x20] @ lit ''FOCUSED''"
definition status_active :: ustr where "status_active = [0x1F7E1, 0x20] @ lit ''ACTIVE''"
definition status_idle :: ustr where "status_idle = [0x26AA, 0x20] @ lit ''IDLE''"
definition indicator_ready :: ustr where "indicator_ready = [0x2705, 0x20] @ lit ''READY''"
definition indicator_busy :: ustr where "indicator_busy = [0x23F3, 0x20] @ lit ''BUSY''"
definition warning_sign :: ustr where "warning_sign = [0x26A0, 0xFE0F]"

text \<open>
  The command line, working directory and process identifier of the first foreground
  process; without one, \<open>fg_cmd\<close> is empty and the window's own \<open>cwd\<close> and \<open>pid\<close> are
  used.
\<close>

definition foreground :: "window \<Rightarrow> ustr list \<times> ustr \<times> jnum" where
  "foreground win =
     (let cwd = (case win_cwd win of None \<Rightarrow> lit ''unknown'' | Some c \<Rightarrow> c);
          pid = win_pid win
      in case win_foreground_processes win of
           [] \<Rightarrow> ([], cwd, pid)
         | p # _ \<Rightarrow>
             ((case pi_cmdline p of None \<Rightarrow> [] | Some c \<Rightarrow> c),
              (case pi_cwd p of None \<Rightarrow> cwd | Some c \<Rightarrow> c),
              (case pi_pid p of None \<Rightarrow> pid | Some n \<Rightarrow> n)))"

text \<open>
  The header line and the rows of the table of one window, from the values that \<open>summary\<close>
  has computed for it; the optional rows come last, then an empty part.
\<close>

definition table_rows ::
  "jnum \<Rightarrow> ustr \<Rightarrow> bool \<Rightarrow> ustr \<Rightarrow> jnum \<Rightarrow> ustr \<Rightarrow> jnum \<Rightarrow> jnum \<Rightarrow> ustr \<Rightarrow> jnum \<Rightarrow> ustr \<Rightarrow> ustr
     \<Rightarrow> ustr option \<Rightarrow> ustr option \<Rightarrow> ustr option \<Rightarrow> ustr list" where
  "table_rows wid status at_prompt process_type tid title columns rows fg_cwd fg_pid
       fg_cmd_str session_age git_branch ssh_target venv =
     [lit ''## Window '' @ show_jnum wid @ lit '' | '' @ status @ lit '' | ''
        @ (if at_prompt then indicator_ready else indicator_busy)
        @ lit '' | '' @ process_type @ lit ''\<newline>'',
      lit ''| Property | Value |'',
      lit ''|----------|-------|'',
      lit ''| **Window ID** | `'' @ show_jnum wid @ lit ''` |'',
      lit ''| **Status** | '' @ (if at_prompt then indicator_ready else indicator_busy)
        @ lit '' - ''
        @ (if at_prompt then lit ''Can receive commands'' else lit ''Running a process'')
        @ lit '' |'',
      lit ''| **Process** | '' @ process_type @ lit '' |'',
      lit ''| **Tab** | '' @ show_jnum tid @ lit '' ('' @ truncate_str title 30 @ lit '') |'',
      lit ''| **Size** | '' @ show_jnum columns @ lit ''x'' @ show_jnum rows @ lit '' |'',
      lit ''| **CWD** | `'' @ fg_cwd @ lit ''` |'',
      lit ''| **PID** | '' @ show_jnum fg_pid @ lit '' |'',
      lit ''| **Command** | `'' @ truncate_str fg_cmd_str 50 @ lit ''` |'',
      lit ''| **Session Age** | '' @ session_age @ lit '' |'']
     @ (if truthy git_branch then [lit ''| **Git Branch** | `'' @ the git_branch @ lit ''` |'']
        else [])
     @ (if truthy ssh_target then [lit ''| **SSH Target** | `'' @ the ssh_target @ lit ''` |'']
        else [])
     @ (if truthy venv then [lit ''| **Virtual Env** | `'' @ the venv @ lit ''` |''] else [])
     @ [[]]"

definition window_table :: "world \<Rightarrow> tab \<Rightarrow> window \<Rightarrow> ustr list" where
  "window_table w tb win =
     (case foreground win of
        (fg_cmd, fg_cwd, fg_pid) \<Rightarrow>
          table_rows (win_id win)
            (if win_is_focused win then status_focused
             else if win_is_active win then status_active
             else status_idle)
            (win_at_prompt win)
            (categorize_process fg_cmd)
            (tab_id tb)
            (case tab_title tb of None \<Rightarrow> lit ''Untitled'' | Some t \<Rightarrow> t)
            (win_columns win)
            (win_lines win)
            fg_cwd
            fg_pid
            (if fg_cmd \<noteq> [] then join (lit '' '') fg_cmd else lit ''shell'')
            (format_age w (case win_created_at win of None \<Rightarrow> 0 | Some t \<Rightarrow> t))
            (get_git_branch w fg_cwd)
            (extract_ssh_target fg_cmd)
            (get_virtualenv (win_env win)))"

definition error_block :: "ustr list \<Rightarrow> ustr list" where
  "error_block errors =
     (if errors \<noteq> [] then
        [lit ''**'' @ warning_sign @ lit '' Errors Detected:**'']
        @ map (\<lambda>err. lit ''- '' @ err) errors @ [[]]
      else [])"

definition quick_commands :: "jnum \<Rightarrow> ustr list" where
  \<open>quick_commands wid =
     [lit ''**Quick commands:**'',
      lit ''- Send text: `send-text -w '' @ show_jnum wid @ lit '' -e "your command"`'',
      lit ''- Send Ctrl+C: `send-key -w '' @ show_jnum wid @ lit '' ctrl+c`'',
      lit ''- Get more output: `get-text -w '' @ show_jnum wid @ lit '' -e all`'',
      lit ''- Focus: `focus -w '' @ show_jnum wid @ lit ''`'',
      []]\<close>

text \<open>\<open>text.rstrip('\n')\<close>.\<close>

definition rstrip_newlines :: "ustr \<Rightarrow> ustr" where
  "rstrip_newlines s = rev (dropWhile (\<lambda>c. c = 0x0A) (rev s))"

text \<open>The fenced tail of the window's text, or the notice that there is none.\<close>

definition text_block :: "int \<Rightarrow> ustr \<Rightarrow> ustr list" where
  "text_block lines text =
     (if text \<noteq> [] \<and> \<not> startswith text (lit ''Error:'') then
        (let text_lines = split_on 0x0A (rstrip_newlines text) in
         (if int (length text_lines) > lines then
            [lit ''*(...truncated, showing last '' @ str_int lines @ lit '' lines)*\<newline>'',
             lit ''```'', join (lit ''\<newline>'') (slice_last lines text_lines), lit ''```'']
          else [lit ''```'', join (lit ''\<newline>'') text_lines, lit ''```'']))
      else [lit ''*No output available*''])"

text \<open>
  What \<open>summary\<close> does for a window that is not skipped, once the window's text and the
  errors found in it are known: the window is counted, its identifier is recorded when it
  is at a prompt or has errors, and its section is appended.
\<close>

definition window_section ::
  "world \<Rightarrow> int \<Rightarrow> tab \<Rightarrow> window \<Rightarrow> ustr \<Rightarrow> ustr list \<Rightarrow> summary_state \<Rightarrow> summary_state" where
  "window_section w lines tb win text errors st =
     st\<lparr>window_count := window_count st + 1,
        ready_windows :=
          (if win_at_prompt win then ready_windows st @ [win_id win] else ready_windows st),
        error_windows :=
          (if errors \<noteq> [] then error_windows st @ [win_id win] else error_windows st),
        output_parts :=
          output_parts st @ window_table w tb win @ error_block errors
          @ quick_commands (win_id win) @ text_block lines text
          @ [lit ''\<newline>---\<newline>'']\<rparr>"

definition errors_of_text :: "ustr \<Rightarrow> ustr list" where
  "errors_of_text text = (if text \<noteq> [] then detect_errors text else [])"

definition window_with_text ::
  "world \<Rightarrow> int \<Rightarrow> tab \<Rightarrow> window \<Rightarrow> ustr \<Rightarrow> summary_state \<Rightarrow> summary_state" where
  "window_with_text w lines tb win text st =
     window_section w lines tb win text (errors_of_text text) st"

text \<open>
  The body of the innermost loop for one window: a window that is the caller's own is
  skipped when \<open>exclude_self\<close> is set; for any other window the text is fetched with
  \<open>get_text(window_id=win_id, extent=extent)\<close>.
\<close>

definition window_step ::
  "world \<Rightarrow> int \<Rightarrow> ustr \<Rightarrow> bool \<Rightarrow> tab \<Rightarrow> window \<Rightarrow> summary_state \<Rightarrow> summary_state" where
  "window_step w lines extent exclude_self tb win st =
     (if exclude_self \<and> win_is_self win then st
      else window_with_text w lines tb win
             (get_text w None extent False (Some (win_id win))) st)"

primrec windows_loop ::
  "world \<Rightarrow> int \<Rightarrow> ustr \<Rightarrow> bool \<Rightarrow> tab \<Rightarrow> window list \<Rightarrow> summary_state \<Rightarrow> summary_state" where
  "windows_loop w lines extent exclude_self tb [] st = st"
| "windows_loop w lines extent exclude_self tb (win # wins) st =
     windows_loop w lines extent exclude_self tb wins
       (window_step w lines extent exclude_self tb win st)"

primrec tabs_loop ::
  "world \<Rightarrow> int \<Rightarrow> ustr \<Rightarrow> bool \<Rightarrow> tab list \<Rightarrow> summary_state \<Rightarrow> summary_state" where
  "tabs_loop w lines extent exclude_self [] st = st"
| "tabs_loop w lines extent exclude_self (tb # tabs) st =
     tabs_loop w lines extent exclude_self tabs
       (windows_loop w lines extent exclude_self tb (tab_windows tb) st)"

primrec os_windows_loop ::
  "world \<Rightarrow> int \<Rightarrow> ustr \<Rightarrow> bool \<Rightarrow> os_window list \<Rightarrow> summary_state \<Rightarrow> summary_state" where
  "os_windows_loop w lines extent exclude_self [] st = st"
| "os_windows_loop w lines extent exclude_self (os_win # os_wins) st =
     os_windows_loop w lines extent exclude_self os_wins
       (tabs_loop w lines extent exclude_self (os_tabs os_win) st)"

text \<open>The closing part of the report: the notice, or the aggregate block.\<close>

definition summary_footer :: "summary_state \<Rightarrow> ustr list" where
  "summary_footer st =
     (if window_count st = 0 then [lit ''*No windows found (or all windows excluded)*'']
      else
        [lit ''\<newline>## Summary\<newline>'',
         lit ''- **Total windows:** '' @ str_int (window_count st),
         lit ''- **Ready for input:** '' @ str_int (int (length (ready_windows st)))
           @ lit '' windows: ''
           @ join (lit '', '') (map show_jnum (slice_to 10 (ready_windows st)))]
        @ (if error_windows st \<noteq> [] then
             [lit ''- **'' @ warning_sign @ lit '' Windows with errors:** ''
                @ str_int (int (length (error_windows st))) @ lit '' windows: ''
                @ join (lit '', '') (map show_jnum (error_windows st))]
           else []))"

definition summary_render :: "summary_state \<Rightarrow> ustr" where
  "summary_render st = join (lit ''\<newline>'') (output_parts st @ summary_footer st)"

definition summary :: "world \<Rightarrow> int \<Rightarrow> ustr \<Rightarrow> bool \<Rightarrow> ustr" where
  "summary w lines extent exclude_self =
     (case ls w None None of
        LsError err raw \<Rightarrow> lit ''Error: '' @ err
      | LsData data \<Rightarrow>
          summary_render
            (os_windows_loop w lines extent exclude_self data
               \<lparr>output_parts = summary_header w lines extent, window_count = 0,
                error_windows = [], ready_windows = []\<rparr>))"

section \<open>Example inputs\<close>

text \<open>
  A small session tree and surroundings, used to run the model: one tab with one window
  that runs \<open>zsh\<close>. In \<open>example_world\<close> the call \<open>kitten @ ls\<close> ends as given and every
  other \<open>kitten @\<close> call times out; the clock reads 5400 seconds after the creation time
  of the example window.
\<close>

definition example_window :: "bool \<Rightarrow> window" where
  "example_window is_self =
     \<lparr>win_id = Num 7, win_is_self = is_self, win_cwd = Some (lit ''/home/u''),
      win_pid = Num 4242, win_is_focused = False, win_is_active = True, win_at_prompt = True,
      win_columns = Num 80, win_lines = Num 24, win_created_at = Some 1700000000000000000,
      win_env = Map.empty,
      win_foreground_processes =
        [\<lparr>pi_cmdline = Some [lit ''zsh''], pi_cwd = None, pi_pid = None\<rparr>]\<rparr>"

definition example_tab :: "bool \<Rightarrow> tab" where
  "example_tab is_self =
     \<lparr>tab_id = Num 1, tab_title = Some (lit ''work''), tab_windows = [example_window is_self]\<rparr>"

definition example_tree :: "bool \<Rightarrow> os_window list" where
  "example_tree is_self = [\<lparr>os_tabs = [example_tab is_self]\<rparr>]"

definition example_world :: "proc_result \<Rightarrow> os_window list \<Rightarrow> world" where
  "example_world ls_outcome tree =
     \<lparr>to_address = None,
      subprocess_kitten = (\<lambda>args. if args = [lit ''ls''] then ls_outcome else TimeoutExpired),
      json_loads = (\<lambda>out. Some tree),
      subprocess_git = (\<lambda>cwd. None),
      now_micros = 1700005400000000,
      fromtimestamp = (\<lambda>ns. Some (ns div 1000)),
      now_strftime = lit ''2023-11-14 23:43:20''\<rparr>"



section \<open>Facts about strings\<close>

lemma lit_eq_iff: "lit a = lit b \<longleftrightarrow> a = b"
  unfolding lit_def by (simp add: inj_map_eq_map inj_of_char)

lemma lower_kelvin_sign: "lower ([0x212A] @ lit ''SH'') = lit ''ksh''"
  by code_simp

lemma split_on_nonempty: "split_on sep s \<noteq> []"
  by (induction s) (auto split: list.splits)

section \<open>Claims about the classifier\<close>

lemma labels_differ_from_git:
  "label_test \<noteq> label_git" "label_ssh \<noteq> label_git" "label_agent \<noteq> label_git"
  by code_simp+

lemma git_not_earlier_base:
  "lit ''git'' \<notin> set shells" "lit ''git'' \<notin> set editors" "lit ''git'' \<notin> set build_tools"
  "lit ''git'' \<notin> set test_runners" "lit ''git'' \<notin> set servers" "lit ''git'' \<notin> set agents"
  "lit ''git'' \<noteq> lit ''ssh''"
  by code_simp+

lemma npm_base:
  "base_name (lower (lit ''npm'')) = lit ''npm''"
  "lit ''npm'' \<notin> set shells" "lit ''npm'' \<notin> set editors" "lit ''npm'' \<in> set build_tools"
  by code_simp+

text \<open>
  Claim C2, as amended. The tests for the substring \<open>test\<close>, for \<open>ssh \<close> and for
  \<open>codex\<close>/\<open>claude\<close> in the lower-cased joined command line come before the test for the base
  name \<open>git\<close>. So a command line whose first token has the lower-cased base name \<open>git\<close> is
  classified as \<open>git\<close> exactly when the joined command line contains none of these substrings;
  otherwise the earlier rule wins.
\<close>

theorem categorize_git_unless_earlier_rule:
  assumes "base_name (lower c) = lit ''git''"
  shows "categorize_process (c # rest) =
           (let full_cmd = lower (join (lit '' '') (c # rest)) in
            if contains full_cmd (lit ''test'') then label_test
            else if contains full_cmd (lit ''ssh '') then label_ssh
            else if contains full_cmd (lit ''codex'') \<or> contains full_cmd (lit ''claude'')
              then label_agent
            else label_git)"
  using assms by (simp add: Let_def categorize_base_def git_not_earlier_base)

theorem categorize_git_unless_earlier_rule_witness:
  "base_name (lower (lit ''/usr/bin/git'')) = lit ''git'' \<and>
   categorize_process [lit ''/usr/bin/git'', lit ''commit''] = label_git"
proof -
  have h: "base_name (lower (lit ''/usr/bin/git'')) = lit ''git''"
    by code_simp
  have n: "\<not> contains (lower (join (lit '' '') [lit ''/usr/bin/git'', lit ''commit''])) (lit ''test'')"
    "\<not> contains (lower (join (lit '' '') [lit ''/usr/bin/git'', lit ''commit''])) (lit ''ssh '')"
    "\<not> contains (lower (join (lit '' '') [lit ''/usr/bin/git'', lit ''commit''])) (lit ''codex'')"
    "\<not> contains (lower (join (lit '' '') [lit ''/usr/bin/git'', lit ''commit''])) (lit ''claude'')"
    by code_simp+
  from categorize_git_unless_earlier_rule [OF h, of "[lit ''commit'']"] n h
  show ?thesis by (simp add: Let_def)
qed

text \<open>
  Claim C2 as stated fails: \<open>git commit -m "add tests"\<close> has first token \<open>git\<close>, yet the
  substring \<open>test\<close> in the joined command line makes the test rule, which comes first, return.
\<close>

theorem categorize_git_counterexample:
  "base_name (lower (lit ''git'')) = lit ''git'' \<and>
   categorize_process [lit ''git'', lit ''commit'', lit ''-m'', lit ''add tests''] = label_test \<and>
   label_test \<noteq> label_git"
  by code_simp

text \<open>
  Claim C4. The command line \<open>npm run test:unit\<close> is classified as build: \<open>npm\<close> is in the
  build set, and the build test comes before the test for the substring \<open>test\<close>. The same
  holds for every command line whose first token is \<open>npm\<close>, whatever follows.
\<close>

theorem categorize_npm_is_build:
  "categorize_process [lit ''npm'', lit ''run'', lit ''test:unit''] = label_build \<and>
   categorize_process (lit ''npm'' # rest) = label_build"
  by (simp add: Let_def categorize_base_def npm_base)

section \<open>Claims about SSH target extraction\<close>



lemma ssh_loop_result:
  "ssh_loop skip_next args = Some t \<Longrightarrow>
     t \<in> set args \<and> \<not> startswith t (lit ''-'') \<and> base_name t \<noteq> lit ''ssh''"
  by (induction args arbitrary: skip_next) (auto split: if_splits)



text \<open>
  Claim C10. A target that the extraction returns is a token of the command line, has no
  leading \<open>-\<close> and its base name is not \<open>ssh\<close>; for \<open>bash -c "ssh host"\<close> it is the token
  \<open>bash\<close> of the outer command.
\<close>

theorem extract_ssh_target_is_plain_token:
  "(extract_ssh_target cmdline = Some t \<longrightarrow>
      t \<in> set cmdline \<and> \<not> startswith t (lit ''-'') \<and> base_name t \<noteq> lit ''ssh'') \<and>
   extract_ssh_target [lit ''bash'', lit ''-c'', lit ''ssh host''] = Some (lit ''bash'')"
proof
  show "extract_ssh_target cmdline = Some t \<longrightarrow>
      t \<in> set cmdline \<and> \<not> startswith t (lit ''-'') \<and> base_name t \<noteq> lit ''ssh''"
  proof (cases cmdline)
    case Nil
    then show ?thesis by simp
  next
    case (Cons c cs)
    then show ?thesis
      using ssh_loop_result [of False "c # cs" t] by (auto simp: Let_def split: if_splits)
  qed
  show "extract_ssh_target [lit ''bash'', lit ''-c'', lit ''ssh host''] = Some (lit ''bash'')"
    by code_simp
qed

theorem extract_ssh_target_is_plain_token_witness:
  "extract_ssh_target [lit ''ssh'', lit ''-p'', lit ''22'', lit ''me@host''] = Some (lit ''me@host'') \<and>
   lit ''me@host'' \<in> set [lit ''ssh'', lit ''-p'', lit ''22'', lit ''me@host''] \<and>
   \<not> startswith (lit ''me@host'') (lit ''-'') \<and> base_name (lit ''me@host'') \<noteq> lit ''ssh''"
proof -
  have h: "extract_ssh_target [lit ''ssh'', lit ''-p'', lit ''22'', lit ''me@host'']
             = Some (lit ''me@host'')"
    by code_simp
  from extract_ssh_target_is_plain_token
         [of "[lit ''ssh'', lit ''-p'', lit ''22'', lit ''me@host'']" "lit ''me@host''"] h
  show ?thesis by simp
qed

section \<open>Claims about the error scanner\<close>

lemma detect_errors_state: "detect_errors text = fst (detect_state text)"
  by (simp add: detect_errors_def detect_state_def slice_last_def lower_def strip_def)

lemma first_match_Some:
  "first_match ps seen line_lower = Some (p, d) \<Longrightarrow> p \<notin> seen \<and> (p, d) \<in> set ps"
  by (induction ps) (auto split: if_splits)

lemma scan_lines_fired:
  assumes "distinct ps" and "set ps = seen"
    and "list_all2 (\<lambda>p e. \<exists>d line. (p, d) \<in> set error_patterns \<and> e = error_entry d line) ps errors"
  shows "\<exists>ps'. distinct ps' \<and> set ps' = snd (scan_lines lines (errors, seen)) \<and>
           list_all2 (\<lambda>p e. \<exists>d line. (p, d) \<in> set error_patterns \<and> e = error_entry d line)
             ps' (fst (scan_lines lines (errors, seen)))"
  using assms
proof (induction lines arbitrary: ps errors seen)
  case Nil
  then show ?case by auto
next
  case (Cons line rest)
  let ?R = "\<lambda>p e. \<exists>d line. (p, d) \<in> set error_patterns \<and> e = error_entry d line"
  let ?l = "strip (lower line)"
  show ?case
  proof (cases "first_match error_patterns seen ?l")
    case None
    with Cons.IH [OF Cons.prems] Cons.prems show ?thesis
      by (auto simp: Let_def)
  next
    case (Some pd)
    obtain p d where pd: "pd = (p, d)" by (cases pd)
    from Some pd first_match_Some have new: "p \<notin> seen" and mem: "(p, d) \<in> set error_patterns"
      by blast+
    have d': "distinct (ps @ [p])" using Cons.prems new by simp
    have s': "set (ps @ [p]) = insert p seen" using Cons.prems by simp
    have r': "list_all2 ?R (ps @ [p]) (errors @ [error_entry d line])"
      using Cons.prems(3) mem by (intro list_all2_appendI) auto
    have now: "\<exists>ps'. distinct ps' \<and> set ps' = insert p seen \<and>
                 list_all2 ?R ps' (errors @ [error_entry d line])"
      using d' s' r' by blast
    from Cons.IH [OF d' s' r'] Cons.IH [OF Cons.prems] now Some pd
    show ?thesis
      by (simp add: Let_def)
  qed
qed

text \<open>
  Claim C3, as amended. For the text made of the lines \<open>Building...\<close>,
  \<open>ERROR: compilation failed\<close> and \<open>make: *** Error 1\<close> the scanner returns exactly one
  entry. It is the entry of the first pattern of the list, \<open>^error:\<close> with the label
  \<open>Error\<close>, which the second line matches before \<open>compilation failed\<close> is tried; the third
  line matches no pattern.
\<close>

theorem detect_errors_build_log:
  "detect_errors (lit ''Building...\<newline>ERROR: compilation failed\<newline>make: *** Error 1'')
     = [lit ''Error: `ERROR: compilation failed`''] \<and>
   snd (detect_state (lit ''Building...\<newline>ERROR: compilation failed\<newline>make: *** Error 1''))
     = {Bol # chars ''error:''}"
  by code_simp

text \<open>
  Claim C3 as stated fails: the single entry is not the one of the pattern
  \<open>compilation failed\<close>.
\<close>

theorem detect_errors_build_log_counterexample:
  "detect_errors (lit ''Building...\<newline>ERROR: compilation failed\<newline>make: *** Error 1'')
     \<noteq> [error_entry (lit ''Compilation failed'') (lit ''ERROR: compilation failed'')] \<and>
   chars ''compilation failed''
     \<notin> snd (detect_state (lit ''Building...\<newline>ERROR: compilation failed\<newline>make: *** Error 1''))"
  by code_simp

text \<open>
  Claim C6. Each signature fires at most once in a scan: the entries of \<open>errors\<close> correspond,
  one to one and in order, to pairwise distinct patterns, and these are exactly the patterns
  in \<open>seen_patterns\<close>. So there are as many entries as patterns that fired, and a line fed
  twice cannot give two entries for the same signature.
\<close>

theorem detect_errors_signature_once:
  "(\<exists>ps. distinct ps \<and> set ps = snd (detect_state text) \<and>
      list_all2 (\<lambda>p e. \<exists>d line. (p, d) \<in> set error_patterns \<and> e = error_entry d line)
        ps (detect_errors text)) \<and>
   length (detect_errors text) = card (snd (detect_state text))"
proof -
  let ?R = "\<lambda>p e. \<exists>d line. (p, d) \<in> set error_patterns \<and> e = error_entry d line"
  have "\<exists>ps. distinct ps \<and> set ps = snd (detect_state text) \<and> list_all2 ?R ps (fst (detect_state text))"
    unfolding detect_state_def Let_def
    by (rule scan_lines_fired) simp_all
  then obtain ps where ps: "distinct ps" "set ps = snd (detect_state text)"
    "list_all2 ?R ps (detect_errors text)"
    by (auto simp: detect_errors_state)
  from ps(3) have "length ps = length (detect_errors text)"
    by (rule list_all2_lengthD)
  with ps(1,2) have "length (detect_errors text) = card (snd (detect_state text))"
    by (metis distinct_card)
  with ps show ?thesis by blast
qed

theorem detect_errors_signature_once_witness:
  "length (detect_errors (lit ''fatal: not a git repository\<newline>fatal: not a git repository''))
     = card (snd (detect_state (lit ''fatal: not a git repository\<newline>fatal: not a git repository''))) \<and>
   detect_errors (lit ''fatal: not a git repository\<newline>fatal: not a git repository'')
     = [lit ''Fatal error: `fatal: not a git repository`'']"
proof -
  have "detect_errors (lit ''fatal: not a git repository\<newline>fatal: not a git repository'')
     = [lit ''Fatal error: `fatal: not a git repository`'']"
    by code_simp
  with detect_errors_signature_once
         [of "lit ''fatal: not a git repository\<newline>fatal: not a git repository''"]
  show ?thesis by simp
qed

text \<open>
  Claim C9 asks that every entry carry a label and an excerpt of at most 60 characters with
  the ANSI escape sequences stripped. The code removes only the sequences \<open>ESC [ ... m\<close>:
  for a line that holds the erase-line sequence \<open>ESC [ 2 K\<close> the entry returned still holds
  that sequence in its excerpt.
\<close>

theorem detect_errors_keeps_escape_sequence:
  "detect_errors (lit ''error: '' @ [0x1B] @ lit ''[2Kboom'')
     = [lit ''Error: `error: '' @ [0x1B] @ lit ''[2Kboom`''] \<and>
   contains (hd (detect_errors (lit ''error: '' @ [0x1B] @ lit ''[2Kboom''))) [0x1B, 0x5B]"
  by code_simp

lemma slice_to_length: "0 \<le> k \<Longrightarrow> length (slice_to k xs) \<le> nat k"
  by (simp add: slice_to_def)

lemma truncate_length: "3 \<le> max_len \<Longrightarrow> int (length (truncate_str text max_len)) \<le> max_len"
  using slice_to_length [of "max_len - 3"]
  by (auto simp: truncate_str_def Let_def lit_def slice_to_def)

text \<open>
  What does hold of every entry: it is the label of a pattern, then the excerpt between
  backquotes, and the excerpt has at most 60 characters.
\<close>

lemma detect_errors_entry_shape:
  assumes "e \<in> set (detect_errors text)"
  shows "\<exists>d line. d \<in> snd ` set error_patterns \<and>
           e = d @ lit '': `'' @ truncate_str (strip_sgr (strip line)) 60 @ lit ''`'' \<and>
           length (truncate_str (strip_sgr (strip line)) 60) \<le> 60"
proof -
  let ?R = "\<lambda>p e. \<exists>d line. (p, d) \<in> set error_patterns \<and> e = error_entry d line"
  have "\<exists>ps. distinct ps \<and> set ps = snd (detect_state text) \<and>
          list_all2 ?R ps (fst (detect_state text))"
    unfolding detect_state_def Let_def by (rule scan_lines_fired) simp_all
  then obtain ps where ps: "list_all2 ?R ps (detect_errors text)"
    by (auto simp: detect_errors_state)
  from assms obtain i where i: "i < length (detect_errors text)" "detect_errors text ! i = e"
    by (auto simp: in_set_conv_nth)
  from list_all2_nthD2 [OF ps i(1)] i(2) obtain d line
    where d: "(ps ! i, d) \<in> set error_patterns" "e = error_entry d line"
    by auto
  from d(1) have "d \<in> snd ` set error_patterns"
    by force
  moreover have "length (truncate_str (strip_sgr (strip line)) 60) \<le> 60"
    using truncate_length [of 60 "strip_sgr (strip line)"] by simp
  ultimately show ?thesis
    using d(2) by (auto simp: error_entry_def Let_def)
qed

section \<open>Claims about the age formatter\<close>















section \<open>Claims about the report synthesizer\<close>

lemma windows_loop_all_skipped:
  "\<forall>win\<in>set wins. exclude_self \<and> win_is_self win \<Longrightarrow>
     windows_loop w lines extent exclude_self tb wins st = st"
  by (induction wins arbitrary: st) (simp_all add: window_step_def)

lemma tabs_loop_all_skipped:
  "\<forall>tb\<in>set tabs. \<forall>win\<in>set (tab_windows tb). exclude_self \<and> win_is_self win \<Longrightarrow>
     tabs_loop w lines extent exclude_self tabs st = st"
  by (induction tabs arbitrary: st) (simp_all add: windows_loop_all_skipped)

lemma os_windows_loop_all_skipped:
  "\<forall>os_win\<in>set data. \<forall>tb\<in>set (os_tabs os_win). \<forall>win\<in>set (tab_windows tb).
      exclude_self \<and> win_is_self win \<Longrightarrow>
     os_windows_loop w lines extent exclude_self data st = st"
  by (induction data arbitrary: st) (simp_all add: tabs_loop_all_skipped)

text \<open>
  Claim C7. When the listing succeeds and the traversal finds no eligible window (every
  window of the tree is the caller's own and excluded, or the tree has no window at all),
  the report is the header followed by the single notice that no windows were found; the
  aggregate block is not there.
\<close>

theorem summary_no_eligible_windows:
  assumes "ls w None None = LsData data"
    and "\<forall>os_win\<in>set data. \<forall>tb\<in>set (os_tabs os_win). \<forall>win\<in>set (tab_windows tb).
           exclude_self \<and> win_is_self win"
  shows "summary w lines extent exclude_self =
           join (lit ''\<newline>'')
             (summary_header w lines extent
              @ [lit ''*No windows found (or all windows excluded)*''])"
  using assms
  by (simp add: summary_def os_windows_loop_all_skipped summary_render_def summary_footer_def)

theorem summary_no_eligible_windows_witness:
  "ls (example_world (Completed 0 (lit ''[...]'') []) (example_tree True)) None None
     = LsData (example_tree True) \<and>
   summary (example_world (Completed 0 (lit ''[...]'') []) (example_tree True)) 20
     (lit ''screen'') True
     = lit ''# Kitty Terminal Summary\<newline>\<newline>*Generated: 2023-11-14 23:43:20*\<newline>\<newline>''
       @ lit ''*Showing last 20 lines from each window (extent: screen)*\<newline>\<newline>---\<newline>\<newline>''
       @ lit ''*No windows found (or all windows excluded)*''"
proof -
  let ?w = "example_world (Completed 0 (lit ''[...]'') []) (example_tree True)"
  have l: "ls ?w None None = LsData (example_tree True)"
    by (simp add: ls_def ls_args_def run_def base_args_def run_kitten_def example_world_def)
  have a: "\<forall>os_win\<in>set (example_tree True). \<forall>tb\<in>set (os_tabs os_win).
             \<forall>win\<in>set (tab_windows tb). True \<and> win_is_self win"
    by (simp add: example_tree_def example_tab_def example_window_def)
  have j: "join (lit ''\<newline>'')
             (summary_header ?w 20 (lit ''screen'')
              @ [lit ''*No windows found (or all windows excluded)*''])
     = lit ''# Kitty Terminal Summary\<newline>\<newline>*Generated: 2023-11-14 23:43:20*\<newline>\<newline>''
       @ lit ''*Showing last 20 lines from each window (extent: screen)*\<newline>\<newline>---\<newline>\<newline>''
       @ lit ''*No windows found (or all windows excluded)*''"
    by code_simp
  from summary_no_eligible_windows [OF l a, of 20 "lit ''screen''"] l j
  show ?thesis by simp
qed






end
